theory Spec2Isabelle
  imports Complex_Main "HOL-Library.AList"
begin

section \<open>Python values reaching the constructors\<close>

text \<open>
  The classes of \<^verbatim>\<open>src/models.py\<close> receive untyped Python values: the CSV reader
  supplies strings (and \<^verbatim>\<open>None\<close> for the missing cells of a short row); of the values
  the JSON reader can supply the model keeps strings, booleans, floats and \<^verbatim>\<open>null\<close>,
  and leaves integers, lists and dictionaries out. A float is one of the IEEE classes
  the code can tell apart: not-a-number, the two infinities, negative zero and a finite
  value. The loaders of \<^verbatim>\<open>src/extract.py\<close> read files and call the two constructors
  once per record; they are not part of the model.
\<close>

datatype pyfloat = NaN | PosInf | NegInf | NegZero | Finite rat

datatype pyval = PNone | PBool bool | PFloat pyfloat | PStr string

datatype error = ValueError | TypeError | AttributeError | KeyError | ParseError

text \<open>
  The conversions between floats and text belong to the Python runtime, not to the
  repository. They are a parameter of the model: \<open>float_of_str\<close> is \<^verbatim>\<open>float(s)\<close> on a
  string (\<open>None\<close> where Python raises \<^verbatim>\<open>ValueError\<close>), \<open>float_repr\<close> is
  \<^verbatim>\<open>str(x)\<close> on a float, \<open>float_format n\<close> is the format specification
  \<^verbatim>\<open>:.nf\<close>, and \<open>str_repr\<close> is \<^verbatim>\<open>repr(s)\<close> on a string.
\<close>

record runtime =
  float_of_str :: "string \<Rightarrow> pyfloat option"
  float_repr :: "pyfloat \<Rightarrow> string"
  float_format :: "nat \<Rightarrow> pyfloat \<Rightarrow> string"
  str_repr :: "string \<Rightarrow> string"

text \<open>\<^verbatim>\<open>x == y\<close> on two floats: false as soon as one side is not-a-number.\<close>

fun is_zero :: "pyfloat \<Rightarrow> bool" where
  "is_zero NegZero = True"
| "is_zero (Finite r) = (r = 0)"
| "is_zero _ = False"

definition float_eq :: "pyfloat \<Rightarrow> pyfloat \<Rightarrow> bool" where
  "float_eq x y = (x \<noteq> NaN \<and> y \<noteq> NaN \<and> (x = y \<or> (is_zero x \<and> is_zero y)))"

text \<open>\<^verbatim>\<open>str(v)\<close>.\<close>

fun py_str :: "runtime \<Rightarrow> pyval \<Rightarrow> string" where
  "py_str rt (PStr s) = s"
| "py_str rt PNone = ''None''"
| "py_str rt (PBool b) = (if b then ''True'' else ''False'')"
| "py_str rt (PFloat x) = float_repr rt x"

text \<open>\<^verbatim>\<open>bool(v)\<close>, the truth value that \<^verbatim>\<open>not v\<close> negates.\<close>

fun py_bool :: "pyval \<Rightarrow> bool" where
  "py_bool PNone = False"
| "py_bool (PBool b) = b"
| "py_bool (PFloat x) = (\<not> is_zero x)"
| "py_bool (PStr s) = (s \<noteq> [])"

text \<open>\<^verbatim>\<open>float(v)\<close>.\<close>

fun py_float :: "runtime \<Rightarrow> pyval \<Rightarrow> error + pyfloat" where
  "py_float rt (PStr s) =
     (case float_of_str rt s of None \<Rightarrow> Inl ValueError | Some x \<Rightarrow> Inr x)"
| "py_float rt (PFloat x) = Inr x"
| "py_float rt (PBool b) = Inr (Finite (if b then 1 else 0))"
| "py_float rt PNone = Inl TypeError"

section \<open>NearEarthObject\<close>

type_synonym ca_ref = nat
type_synonym neo_ref = nat

record NearEarthObject =
  designation :: string
  name :: "string option"
  diameter :: pyfloat
  hazardous :: bool
  approaches :: "ca_ref list"
  extra_information :: "(string \<times> pyval) list"

text \<open>
  \<^verbatim>\<open>NearEarthObject.__init__(self, pdes, name='', diameter='', pha='N', **extra)\<close>.
  A keyword left out of the call is \<open>None\<close> here and takes the default of the signature.
\<close>

definition NearEarthObject_init ::
  "runtime \<Rightarrow> pyval \<Rightarrow> pyval option \<Rightarrow> pyval option \<Rightarrow> pyval option \<Rightarrow>
   (string \<times> pyval) list \<Rightarrow> error + NearEarthObject" where
  "NearEarthObject_init rt pdes name_arg diameter_arg pha_arg extra =
     (let name0 = (case name_arg of None \<Rightarrow> PStr '''' | Some v \<Rightarrow> v);
          diameter0 = (case diameter_arg of None \<Rightarrow> PStr '''' | Some v \<Rightarrow> v);
          pha0 = (case pha_arg of None \<Rightarrow> PStr ''N'' | Some v \<Rightarrow> v);
          self_designation = py_str rt pdes;
          self_name = (if py_str rt name0 \<noteq> [] then Some (py_str rt name0) else None);
          diameter1 = (if \<not> py_bool diameter0 then PStr ''nan'' else diameter0)
      in case py_float rt diameter1 of
           Inl e \<Rightarrow> Inl e
         | Inr self_diameter \<Rightarrow>
             (let pha1 = (if pha0 = PStr ''N'' then PStr '''' else pha0)
              in Inr \<lparr> designation = self_designation, name = self_name,
                       diameter = self_diameter, hazardous = py_bool pha1,
                       approaches = [], extra_information = extra \<rparr>))"

text \<open>The property \<^verbatim>\<open>fullname\<close>; \<^verbatim>\<open>if self.name\<close> holds for a name that is a non-empty string.\<close>

definition fullname :: "NearEarthObject \<Rightarrow> string" where
  "fullname self =
     (let fullname0 = designation self
      in case name self of
           None \<Rightarrow> fullname0
         | Some n \<Rightarrow> (if n \<noteq> [] then fullname0 @ '' ('' @ n @ '')'' else fullname0))"

section \<open>The date helpers\<close>

text \<open>
  Modelled from the spec: the module \<^verbatim>\<open>helpers\<close> with \<^verbatim>\<open>cd_to_datetime\<close> and
  \<^verbatim>\<open>datetime_to_str\<close>, which \<^verbatim>\<open>src/models.py\<close> imports and which is not among the
  sources. The spec (4.2) gives the external format \<^verbatim>\<open>YYYY-MM-DD HH:MM\<close> at minute
  precision, a parse that fails on malformed input, and a display that renders the
  timestamp in the same format, dropping seconds. The timestamp is a calendar record;
  a year is any four digits. (The docstring of \<^verbatim>\<open>CloseApproach.__init__\<close> words the
  input format as \<^verbatim>\<open>YYYY-bb-DD hh:mm\<close>; the model follows the spec, whose month is
  two digits on both sides.)
\<close>

record datetime =
  year :: nat
  month :: nat
  day :: nat
  hour :: nat
  minute :: nat
  second :: nat

definition is_digit :: "char \<Rightarrow> bool" where
  "is_digit c = (c \<in> set ''0123456789'')"

definition digit_val :: "char \<Rightarrow> nat" where
  "digit_val c = of_char c - 48"

definition digit_char :: "nat \<Rightarrow> char" where
  "digit_char d = ''0123456789'' ! d"

text \<open>The number a string of decimal digits denotes, most significant digit first.\<close>

definition read_digits :: "string \<Rightarrow> nat" where
  "read_digits s = foldl (\<lambda>acc c. 10 * acc + digit_val c) 0 s"

definition read_nat :: "string \<Rightarrow> nat option" where
  "read_nat s = (if s \<noteq> [] \<and> list_all is_digit s then Some (read_digits s) else None)"

text \<open>The decimal digits of a number, and the number padded with zeros to a width.\<close>

function show_nat :: "nat \<Rightarrow> string" where
  "show_nat n = (if n < 10 then [digit_char n] else show_nat (n div 10) @ [digit_char (n mod 10)])"
  by pat_completeness auto
termination
  by (relation "measure (\<lambda>n. n)") auto

declare show_nat.simps [simp del]

definition zero_pad :: "nat \<Rightarrow> nat \<Rightarrow> string" where
  "zero_pad w n = replicate (w - length (show_nat n)) (CHR ''0'') @ show_nat n"

definition leap_year :: "nat \<Rightarrow> bool" where
  "leap_year y = ((y mod 4 = 0 \<and> y mod 100 \<noteq> 0) \<or> y mod 400 = 0)"

definition days_in_month :: "nat \<Rightarrow> nat \<Rightarrow> nat" where
  "days_in_month y m =
     (if m = 2 then (if leap_year y then 29 else 28)
      else if m = 4 \<or> m = 6 \<or> m = 9 \<or> m = 11 then 30 else 31)"

definition valid_fields :: "nat \<Rightarrow> nat \<Rightarrow> nat \<Rightarrow> nat \<Rightarrow> nat \<Rightarrow> bool" where
  "valid_fields y m d hh mm =
     (1 \<le> m \<and> m \<le> 12 \<and> 1 \<le> d \<and> d \<le> days_in_month y m \<and> hh < 24 \<and> mm < 60)"

text \<open>
  Modelled from the spec: \<^verbatim>\<open>cd_to_datetime\<close>, the parse of the fixed format; anything
  else, a value that is not a string included, is malformed input.
\<close>

definition cd_to_datetime :: "pyval \<Rightarrow> error + datetime" where
  "cd_to_datetime cd =
     (case cd of
        PStr s \<Rightarrow>
          (if length s = 16 \<and> s ! 4 = CHR ''-'' \<and> s ! 7 = CHR ''-'' \<and>
              s ! 10 = CHR '' '' \<and> s ! 13 = CHR '':''
           then
             (case (read_nat (take 4 s), read_nat (take 2 (drop 5 s)),
                    read_nat (take 2 (drop 8 s)), read_nat (take 2 (drop 11 s)),
                    read_nat (take 2 (drop 14 s))) of
                (Some y, Some m, Some d, Some hh, Some mm) \<Rightarrow>
                  (if valid_fields y m d hh mm
                   then Inr \<lparr> year = y, month = m, day = d, hour = hh, minute = mm, second = 0 \<rparr>
                   else Inl ParseError)
              | _ \<Rightarrow> Inl ParseError)
           else Inl ParseError)
      | _ \<Rightarrow> Inl ParseError)"

text \<open>
  Modelled from the spec: \<^verbatim>\<open>datetime_to_str\<close>, the display of a timestamp without its
  seconds.
\<close>

definition datetime_to_str :: "datetime \<Rightarrow> string" where
  "datetime_to_str dt =
     zero_pad 4 (year dt) @ ''-'' @ zero_pad 2 (month dt) @ ''-'' @ zero_pad 2 (day dt) @
     '' '' @ zero_pad 2 (hour dt) @ '':'' @ zero_pad 2 (minute dt)"

text \<open>
  A valid minute-precision date-time string, in the spec's words: sixteen characters,
  digits in the five fields, the separators of \<^verbatim>\<open>YYYY-MM-DD HH:MM\<close> between them, and
  field values that name a calendar day and a time of day.
\<close>

definition valid_cd :: "string \<Rightarrow> bool" where
  "valid_cd s =
     (length s = 16 \<and> list_all is_digit (take 4 s) \<and> s ! 4 = CHR ''-'' \<and>
      list_all is_digit (take 2 (drop 5 s)) \<and> s ! 7 = CHR ''-'' \<and>
      list_all is_digit (take 2 (drop 8 s)) \<and> s ! 10 = CHR '' '' \<and>
      list_all is_digit (take 2 (drop 11 s)) \<and> s ! 13 = CHR '':'' \<and>
      list_all is_digit (take 2 (drop 14 s)) \<and>
      valid_fields (read_digits (take 4 s)) (read_digits (take 2 (drop 5 s)))
        (read_digits (take 2 (drop 8 s))) (read_digits (take 2 (drop 11 s)))
        (read_digits (take 2 (drop 14 s))))"

section \<open>CloseApproach\<close>

record CloseApproach =
  ca_designation :: string
  time :: datetime
  distance :: pyfloat
  velocity :: pyfloat
  neo :: "neo_ref option"
  ca_extra_information :: "(string \<times> pyval) list"

text \<open>
  \<^verbatim>\<open>CloseApproach.__init__(self, des, cd, dist, v_rel, **extra)\<close>; the field
  \<open>ca_designation\<close> is the attribute \<^verbatim>\<open>_designation\<close>. The conversions run in the order
  of the source and the first one to raise ends the construction (\<open>dist_arg\<close> is the
  parameter \<^verbatim>\<open>dist\<close>).
\<close>

definition CloseApproach_init ::
  "runtime \<Rightarrow> pyval \<Rightarrow> pyval \<Rightarrow> pyval \<Rightarrow> pyval \<Rightarrow> (string \<times> pyval) list \<Rightarrow>
   error + CloseApproach" where
  "CloseApproach_init rt des cd dist_arg v_rel extra =
     (let self_designation = py_str rt des
      in case cd_to_datetime cd of
           Inl e \<Rightarrow> Inl e
         | Inr self_time \<Rightarrow>
             (case py_float rt dist_arg of
                Inl e \<Rightarrow> Inl e
              | Inr self_distance \<Rightarrow>
                  (case py_float rt v_rel of
                     Inl e \<Rightarrow> Inl e
                   | Inr self_velocity \<Rightarrow>
                       Inr \<lparr> ca_designation = self_designation, time = self_time,
                             distance = self_distance, velocity = self_velocity,
                             neo = None, ca_extra_information = extra \<rparr>)))"

definition time_str :: "CloseApproach \<Rightarrow> string" where
  "time_str self = datetime_to_str (time self)"

section \<open>Objects in a store\<close>

text \<open>
  A \<^verbatim>\<open>CloseApproach\<close> refers to its \<^verbatim>\<open>NearEarthObject\<close>, whose list of approaches
  refers back, and \<^verbatim>\<open>assign_neo\<close> updates both objects in place. The objects live
  in a store, one table per class; a reference is an address in its table. A method
  that reads or writes attributes takes the store and returns its result with the store
  it leaves behind.
\<close>

record heap =
  neo_objs :: "neo_ref \<Rightarrow> NearEarthObject"
  ca_objs :: "ca_ref \<Rightarrow> CloseApproach"

text \<open>A dictionary keeps its keys in insertion order; storing under a key that is
  present replaces the value in place.\<close>

definition py_dict :: "('k \<times> 'v) list \<Rightarrow> ('k \<times> 'v) list" where
  "py_dict kvs = foldl (\<lambda>d kv. AList.update (fst kv) (snd kv) d) [] kvs"

definition py_in :: "'k \<Rightarrow> ('k \<times> 'v) list \<Rightarrow> bool" where
  "py_in k d = (map_of d k \<noteq> None)"

definition py_getitem :: "('k \<times> 'v) list \<Rightarrow> 'k \<Rightarrow> error + 'v" where
  "py_getitem d k = (case map_of d k of None \<Rightarrow> Inl KeyError | Some v \<Rightarrow> Inr v)"

subsection \<open>String rendering\<close>

text \<open>\<^verbatim>\<open>NearEarthObject.__str__\<close> and \<^verbatim>\<open>NearEarthObject.__repr__\<close>.\<close>

definition NearEarthObject_str :: "runtime \<Rightarrow> heap \<Rightarrow> neo_ref \<Rightarrow> string \<times> heap" where
  "NearEarthObject_str rt h self =
     (let obj = neo_objs h self;
          string0 = ''NEO '' @ str_repr rt (fullname obj);
          string1 = (if float_eq (diameter obj) (diameter obj)
                     then string0 @ '' has a diameter of '' @ float_format rt 3 (diameter obj) @
                          '' km and''
                     else string0);
          string2 = (if hazardous obj then string1 @ '' is potentially hazardous.''
                     else string1 @ '' is not potentially hazardous.'')
      in (string2, h))"

definition NearEarthObject_repr :: "runtime \<Rightarrow> heap \<Rightarrow> neo_ref \<Rightarrow> string \<times> heap" where
  "NearEarthObject_repr rt h self =
     (let obj = neo_objs h self
      in (''NearEarthObject(designation='' @ str_repr rt (designation obj) @ '', name='' @
          (case name obj of None \<Rightarrow> ''None'' | Some n \<Rightarrow> str_repr rt n) @ '', diameter='' @
          float_format rt 3 (diameter obj) @ '', hazardous='' @
          (if hazardous obj then ''True'' else ''False'') @ '')'', h))"

text \<open>\<^verbatim>\<open>CloseApproach.__str__\<close> and \<^verbatim>\<open>CloseApproach.__repr__\<close>. An object of a class
  without \<^verbatim>\<open>__bool__\<close> is true, so \<^verbatim>\<open>if self.neo\<close> asks whether the event is linked.\<close>

definition CloseApproach_str :: "runtime \<Rightarrow> heap \<Rightarrow> ca_ref \<Rightarrow> string \<times> heap" where
  "CloseApproach_str rt h self =
     (let obj = ca_objs h self;
          string0 = ''At '' @ time_str obj @ '','';
          string1 = (case neo obj of
                       Some n \<Rightarrow> string0 @ '' '' @ str_repr rt (fullname (neo_objs h n)) @
                                 '' approaches Earth ''
                     | None \<Rightarrow> string0 @ '' '' @ str_repr rt (ca_designation obj) @
                               '' approaches Earth '')
      in (string1 @ ''at a distance of '' @ float_format rt 2 (distance obj) @
          '' au and a velocity of '' @ float_format rt 2 (velocity obj) @ '' km/s.'', h))"

definition CloseApproach_repr :: "runtime \<Rightarrow> heap \<Rightarrow> ca_ref \<Rightarrow> string \<times> heap" where
  "CloseApproach_repr rt h self =
     (let obj = ca_objs h self
      in (''CloseApproach(time='' @ str_repr rt (time_str obj) @ '', distance='' @
          float_format rt 2 (distance obj) @ '', velocity='' @
          float_format rt 2 (velocity obj) @ '', neo='' @
          (case neo obj of None \<Rightarrow> ''None'' | Some n \<Rightarrow> fst (NearEarthObject_repr rt h n)) @
          '')'', h))"

subsection \<open>Linking\<close>

text \<open>
  \<^verbatim>\<open>CloseApproach.assign_neo(self, neos)\<close>, with \<open>neos_dict\<close> the dictionary from
  designations to objects. On a hit the event's \<^verbatim>\<open>neo\<close> is set and the event is
  appended to the approaches of the object that \<^verbatim>\<open>self.neo\<close> then names.
\<close>

definition assign_neo ::
  "heap \<Rightarrow> ca_ref \<Rightarrow> (string \<times> neo_ref) list \<Rightarrow> (error + ca_ref) \<times> heap" where
  "assign_neo h self neos_dict =
     (if py_in (ca_designation (ca_objs h self)) neos_dict then
        (case py_getitem neos_dict (ca_designation (ca_objs h self)) of
           Inl e \<Rightarrow> (Inl e, h)
         | Inr n \<Rightarrow>
             (let h1 = h\<lparr> ca_objs := (ca_objs h)(self := (ca_objs h self)\<lparr> neo := Some n \<rparr>) \<rparr>
              in case neo (ca_objs h1 self) of
                   None \<Rightarrow> (Inl AttributeError, h1)
                 | Some m \<Rightarrow>
                     (Inr self,
                      h1\<lparr> neo_objs := (neo_objs h1)
                            (m := (neo_objs h1 m)\<lparr> approaches :=
                                   approaches (neo_objs h1 m) @ [self] \<rparr>) \<rparr>)))
      else (Inr self, h\<lparr> ca_objs := (ca_objs h)(self := (ca_objs h self)\<lparr> neo := None \<rparr>) \<rparr>))"

text \<open>
  Modelled from the spec: the linking pass of the database constructor
  (\<^verbatim>\<open>NEODatabase\<close>), which is not among the sources. The spec (4.3) builds a map from
  designation to body in one pass over the bodies and then, for each event in the order
  supplied, looks its designation up; the lookup and the two updates are
  \<^verbatim>\<open>assign_neo\<close>, called once per event.
\<close>

definition designation_index :: "heap \<Rightarrow> neo_ref list \<Rightarrow> (string \<times> neo_ref) list" where
  "designation_index h bodies = py_dict (map (\<lambda>b. (designation (neo_objs h b), b)) bodies)"

text \<open>
  Modelled from the spec: the loop of the pass over the events, which stops at the first
  call that raises, and the pass as a whole.
\<close>

fun link_events :: "heap \<Rightarrow> (string \<times> neo_ref) list \<Rightarrow> ca_ref list \<Rightarrow> error + heap" where
  "link_events h neos_dict [] = Inr h"
| "link_events h neos_dict (e # es) =
     (case assign_neo h e neos_dict of
        (Inl err, h') \<Rightarrow> Inl err
      | (Inr r, h') \<Rightarrow> link_events h' neos_dict es)"

definition linking_pass :: "heap \<Rightarrow> neo_ref list \<Rightarrow> ca_ref list \<Rightarrow> error + heap" where
  "linking_pass h bodies events = link_events h (designation_index h bodies) events"

subsection \<open>Serialization\<close>

text \<open>The value \<^verbatim>\<open>serialize\<close> returns: a dictionary whose values are plain values or,
  under \<^verbatim>\<open>neo\<close>, a dictionary again.\<close>

datatype pyout = Atom pyval | Dict "(string \<times> pyout) list"

definition fieldnames :: "string list" where
  "fieldnames = [''datetime_utc'', ''distance_au'', ''velocity_km_s'', ''designation'',
                 ''name'', ''diameter_km'', ''potentially_hazardous'']"

text \<open>
  \<^verbatim>\<open>CloseApproach.serialize(self, extension)\<close>. Reading \<^verbatim>\<open>self.neo.name\<close> on an
  event that is not linked raises \<^verbatim>\<open>AttributeError\<close>. The three tests on the
  extension follow the source; a call that passed all three would return \<^verbatim>\<open>None\<close>.
\<close>

definition serialize :: "runtime \<Rightarrow> heap \<Rightarrow> ca_ref \<Rightarrow> pyval \<Rightarrow> (error + pyout) \<times> heap" where
  "serialize rt h self extension =
     (case neo (ca_objs h self) of
        None \<Rightarrow> (Inl AttributeError, h)
      | Some n \<Rightarrow>
          (let name0 = name (neo_objs h n);
               name1 = (case name0 of None \<Rightarrow> '''' | Some s \<Rightarrow> s);
               attributes =
                 [PStr (time_str (ca_objs h self)), PFloat (distance (ca_objs h self)),
                  PFloat (velocity (ca_objs h self)), PStr (designation (neo_objs h n)),
                  PStr name1, PFloat (diameter (neo_objs h n)),
                  PBool (hazardous (neo_objs h n))]
           in if extension = PStr ''csv'' then
                (Inr (Dict (py_dict (zip fieldnames
                   (map (\<lambda>attr. Atom (PStr (py_str rt attr))) attributes)))), h)
              else if extension = PStr ''json'' then
                (let out = py_dict (zip (take 3 fieldnames) (map Atom (take 3 attributes)));
                     out1 = AList.update ''neo''
                              (Dict (py_dict (zip (drop 3 fieldnames)
                                 (map Atom (drop 3 attributes))))) out
                 in (Inr (Dict out1), h))
              else if extension \<notin> {PStr ''csv'', PStr ''json''} then (Inl ValueError, h)
              else (Inr (Atom PNone), h)))"

subsection \<open>Sequences of calls\<close>

text \<open>The calls a client can make on the objects of a store once they are built, and
  the store each call leaves behind.\<close>

datatype operation =
    AssignNeo ca_ref "(string \<times> neo_ref) list"
  | Serialize ca_ref pyval
  | NeoStr neo_ref
  | NeoRepr neo_ref
  | CaStr ca_ref
  | CaRepr ca_ref

fun perform :: "runtime \<Rightarrow> heap \<Rightarrow> operation \<Rightarrow> heap" where
  "perform rt h (AssignNeo e d) = snd (assign_neo h e d)"
| "perform rt h (Serialize e x) = snd (serialize rt h e x)"
| "perform rt h (NeoStr n) = snd (NearEarthObject_str rt h n)"
| "perform rt h (NeoRepr n) = snd (NearEarthObject_repr rt h n)"
| "perform rt h (CaStr e) = snd (CloseApproach_str rt h e)"
| "perform rt h (CaRepr e) = snd (CloseApproach_repr rt h e)"

definition perform_all :: "runtime \<Rightarrow> heap \<Rightarrow> operation list \<Rightarrow> heap" where
  "perform_all rt h ops = foldl (perform rt) h ops"

section \<open>Sample data\<close>

text \<open>
  A small runtime and a few objects on which the statements below are evaluated. The
  runtime knows the float literals of the sample records; the objects are the two bodies
  and the event of the scenarios in the spec (8).
\<close>

definition example_runtime :: runtime where
  "example_runtime =
     \<lparr> float_of_str = (\<lambda>s. if s = ''nan'' then Some NaN
                            else if s = ''16.84'' then Some (Finite (421 / 25))
                            else if s = ''0.5'' then Some (Finite (1 / 2))
                            else None),
       float_repr = (\<lambda>x. if x = NaN then ''nan''
                          else if x = Finite (421 / 25) then ''16.84''
                          else if x = Finite (1 / 2) then ''0.5'' else ''0.0''),
       float_format = (\<lambda>n x. if x = NaN then ''nan'' else ''0.50''),
       str_repr = (\<lambda>s. [CHR 0x27] @ s @ [CHR 0x27]) \<rparr>"

definition example_neo :: NearEarthObject where
  "example_neo = \<lparr> designation = ''2015 AB'', name = None, diameter = NaN, hazardous = True,
                     approaches = [], extra_information = [] \<rparr>"

definition example_neo_none :: NearEarthObject where
  "example_neo_none = \<lparr> designation = ''433'', name = Some ''None'',
                          diameter = Finite (421 / 25), hazardous = False, approaches = [],
                          extra_information = [] \<rparr>"

definition example_eros :: NearEarthObject where
  "example_eros = \<lparr> designation = ''433'', name = Some ''Eros'', diameter = Finite (421 / 25),
                      hazardous = False, approaches = [], extra_information = [] \<rparr>"

definition example_event :: CloseApproach where
  "example_event =
     \<lparr> ca_designation = ''433'',
       time = \<lparr> year = 1900, month = 12, day = 27, hour = 1, minute = 30, second = 0 \<rparr>,
       distance = Finite (1 / 2), velocity = Finite (1 / 2), neo = None,
       ca_extra_information = [] \<rparr>"

text \<open>Body 0 is Eros and every other address holds 2015 AB; event 1 refers to a
  designation that no body has and every other event to 433.\<close>

definition example_heap :: heap where
  "example_heap =
     \<lparr> neo_objs = (\<lambda>n. if n = 0 then example_eros else example_neo),
       ca_objs = (\<lambda>e. if e = 1 then example_event\<lparr> ca_designation := ''unknown-object'' \<rparr>
                       else example_event) \<rparr>"

text \<open>The store with event 0 linked to Eros, and a store whose events all refer to
  2015 AB.\<close>

definition linked_heap :: heap where
  "linked_heap =
     \<lparr> neo_objs = (\<lambda>n. if n = 0 then example_eros\<lparr> approaches := [0] \<rparr> else example_neo),
       ca_objs = (\<lambda>e. if e = 0 then example_event\<lparr> neo := Some 0 \<rparr>
                       else example_event\<lparr> ca_designation := ''unknown-object'' \<rparr>) \<rparr>"

definition example_heap_2015 :: heap where
  "example_heap_2015 =
     \<lparr> neo_objs = (\<lambda>n. if n = 0 then example_eros else example_neo),
       ca_objs = (\<lambda>e. example_event\<lparr> ca_designation := ''2015 AB'' \<rparr>) \<rparr>"

section \<open>Properties\<close>

subsection \<open>Construction of a NearEarthObject\<close>

lemma init_Inr:
  "NearEarthObject_init rt pdes nm d pha extra = Inr obj \<Longrightarrow>
   designation obj = py_str rt pdes \<and>
   name obj = (let v = (case nm of None \<Rightarrow> PStr [] | Some v \<Rightarrow> v)
               in if py_str rt v \<noteq> [] then Some (py_str rt v) else None) \<and>
   hazardous obj = (let v = (case pha of None \<Rightarrow> PStr ''N'' | Some v \<Rightarrow> v)
                    in py_bool (if v = PStr ''N'' then PStr [] else v)) \<and>
   approaches obj = [] \<and> extra_information obj = extra"
  by (auto simp: NearEarthObject_init_def Let_def split: sum.splits)

text \<open>
  Claim C7. The stored name of a constructed \<^verbatim>\<open>NearEarthObject\<close> is never the
  empty string, and it is \<^verbatim>\<open>None\<close> when the name input is the empty string or is
  left out.
\<close>

theorem C7_empty_name_is_None:
  assumes "NearEarthObject_init rt pdes nm d pha extra = Inr obj"
  shows "name obj \<noteq> Some [] \<and> ((nm = None \<or> nm = Some (PStr [])) \<longrightarrow> name obj = None)"
  using init_Inr [OF assms] by (auto simp: Let_def split: if_splits)

theorem C7_empty_name_is_None_witness:
  "NearEarthObject_init example_runtime (PStr ''2015 AB'') (Some (PStr []))
     (Some (PStr [])) (Some (PStr ''Y'')) [] = Inr example_neo \<and>
   name example_neo \<noteq> Some [] \<and> name example_neo = None"
proof -
  have run: "NearEarthObject_init example_runtime (PStr ''2015 AB'') (Some (PStr []))
     (Some (PStr [])) (Some (PStr ''Y'')) [] = Inr example_neo"
    by (simp add: NearEarthObject_init_def example_runtime_def example_neo_def)
  from C7_empty_name_is_None [OF run] run show ?thesis by simp
qed

text \<open>
  Claim C6. Under a runtime whose \<^verbatim>\<open>float('nan')\<close> is not-a-number: with the diameter
  left out, empty or \<^verbatim>\<open>None\<close> the construction succeeds with a diameter that is
  not-a-number, unequal to itself and not a zero; with a non-empty diameter string that
  \<^verbatim>\<open>float\<close> rejects the construction raises \<^verbatim>\<open>ValueError\<close>.
\<close>

theorem C6_empty_diameter_is_nan:
  assumes "float_of_str rt ''nan'' = Some NaN"
  shows "((d = None \<or> d = Some (PStr []) \<or> d = Some PNone) \<longrightarrow>
           (\<exists>obj. NearEarthObject_init rt pdes nm d pha extra = Inr obj \<and>
                  diameter obj = NaN \<and> \<not> float_eq (diameter obj) (diameter obj) \<and>
                  \<not> float_eq (diameter obj) (Finite 0) \<and> \<not> is_zero (diameter obj))) \<and>
         (\<forall>s. d = Some (PStr s) \<and> s \<noteq> [] \<and> float_of_str rt s = None \<longrightarrow>
              NearEarthObject_init rt pdes nm d pha extra = Inl ValueError)"
  using assms by (auto simp: NearEarthObject_init_def Let_def float_eq_def)

theorem C6_empty_diameter_is_nan_witness:
  "float_of_str example_runtime ''nan'' = Some NaN \<and>
   NearEarthObject_init example_runtime (PStr ''2015 AB'') (Some (PStr []))
     (Some (PStr [])) (Some (PStr ''Y'')) [] = Inr example_neo \<and>
   diameter example_neo = NaN \<and> \<not> float_eq (diameter example_neo) (diameter example_neo) \<and>
   float_of_str example_runtime ''unknown'' = None \<and>
   NearEarthObject_init example_runtime (PStr ''2015 AB'') None
     (Some (PStr ''unknown'')) None [] = Inl ValueError"
proof -
  have nan: "float_of_str example_runtime ''nan'' = Some NaN"
    by (simp add: example_runtime_def)
  have bad: "float_of_str example_runtime ''unknown'' = None"
    by (simp add: example_runtime_def)
  have run: "NearEarthObject_init example_runtime (PStr ''2015 AB'') (Some (PStr []))
     (Some (PStr [])) (Some (PStr ''Y'')) [] = Inr example_neo"
    by (simp add: NearEarthObject_init_def example_runtime_def example_neo_def)
  from C6_empty_diameter_is_nan [OF nan, of "Some (PStr ''unknown'')" "PStr ''2015 AB''"
      None None "[]"] bad
  have "NearEarthObject_init example_runtime (PStr ''2015 AB'') None
     (Some (PStr ''unknown'')) None [] = Inl ValueError"
    by simp
  with nan bad run show ?thesis
    by (simp add: example_neo_def float_eq_def)
qed

text \<open>
  Claim C8. \<^verbatim>\<open>hazardous\<close> is false exactly when the flag is left out (the default
  \<^verbatim>\<open>'N'\<close>), is \<^verbatim>\<open>'N'\<close>, or is a false value; for a string flag it is true
  exactly when the string is neither \<^verbatim>\<open>'N'\<close> nor empty.
\<close>

theorem C8_hazard_flag:
  assumes "NearEarthObject_init rt pdes nm d pha extra = Inr obj"
  shows "(\<not> hazardous obj \<longleftrightarrow>
            pha = None \<or> pha = Some (PStr ''N'') \<or> (\<exists>v. pha = Some v \<and> \<not> py_bool v)) \<and>
         (\<forall>s. pha = Some (PStr s) \<longrightarrow> (hazardous obj \<longleftrightarrow> s \<noteq> ''N'' \<and> s \<noteq> []))"
  using init_Inr [OF assms] by (auto simp: Let_def split: if_splits)

theorem C8_hazard_flag_witness:
  "NearEarthObject_init example_runtime (PStr ''2015 AB'') (Some (PStr []))
     (Some (PStr [])) (Some (PStr ''Y'')) [] = Inr example_neo \<and>
   hazardous example_neo \<and> ''Y'' \<noteq> ''N'' \<and> ''Y'' \<noteq> []"
proof -
  have run: "NearEarthObject_init example_runtime (PStr ''2015 AB'') (Some (PStr []))
     (Some (PStr [])) (Some (PStr ''Y'')) [] = Inr example_neo"
    by (simp add: NearEarthObject_init_def example_runtime_def example_neo_def)
  from C8_hazard_flag [OF run] run show ?thesis by simp
qed

text \<open>
  Claim C10. A name input of \<^verbatim>\<open>None\<close> is stored as the string \<^verbatim>\<open>'None'\<close>; any
  name input whose \<^verbatim>\<open>str\<close> is non-empty is stored as that string; the stored name
  is \<^verbatim>\<open>None\<close> only for an input whose \<^verbatim>\<open>str\<close> is empty.
\<close>

theorem C10_none_name_is_kept:
  assumes "NearEarthObject_init rt pdes nm d pha extra = Inr obj"
  shows "(nm = Some PNone \<longrightarrow> name obj = Some ''None'') \<and>
         (\<forall>v. nm = Some v \<and> py_str rt v \<noteq> [] \<longrightarrow> name obj = Some (py_str rt v)) \<and>
         (\<forall>v. nm = Some v \<longrightarrow> (name obj = None \<longleftrightarrow> py_str rt v = []))"
  using init_Inr [OF assms] by (auto simp: Let_def split: if_splits)

theorem C10_none_name_is_kept_witness:
  "NearEarthObject_init example_runtime (PStr ''433'') (Some PNone)
     (Some (PStr ''16.84'')) (Some (PStr ''N'')) [] = Inr example_neo_none \<and>
   name example_neo_none = Some ''None''"
proof -
  have run: "NearEarthObject_init example_runtime (PStr ''433'') (Some PNone)
     (Some (PStr ''16.84'')) (Some (PStr ''N'')) [] = Inr example_neo_none"
    by (simp add: NearEarthObject_init_def example_runtime_def example_neo_none_def)
  from C10_none_name_is_kept [OF run] run show ?thesis by simp
qed

subsection \<open>Serialization\<close>

lemma py_dict_fields7:
  "py_dict (zip fieldnames [a0, a1, a2, a3, a4, a5, a6]) =
   [(''datetime_utc'', a0), (''distance_au'', a1), (''velocity_km_s'', a2),
    (''designation'', a3), (''name'', a4), (''diameter_km'', a5),
    (''potentially_hazardous'', a6)]"
  by (simp add: py_dict_def fieldnames_def)

lemma py_dict_fields3:
  "py_dict (zip (take 3 fieldnames) [a0, a1, a2]) =
   [(''datetime_utc'', a0), (''distance_au'', a1), (''velocity_km_s'', a2)]"
  by (simp add: py_dict_def fieldnames_def)

lemma py_dict_fields4:
  "py_dict (zip (drop 3 fieldnames) [a3, a4, a5, a6]) =
   [(''designation'', a3), (''name'', a4), (''diameter_km'', a5),
    (''potentially_hazardous'', a6)]"
  by (simp add: py_dict_def fieldnames_def)

lemma serialize_csv:
  "neo (ca_objs h self) = Some n \<Longrightarrow>
   serialize rt h self (PStr ''csv'') =
     (Inr (Dict
       [(''datetime_utc'', Atom (PStr (time_str (ca_objs h self)))),
        (''distance_au'', Atom (PStr (float_repr rt (distance (ca_objs h self))))),
        (''velocity_km_s'', Atom (PStr (float_repr rt (velocity (ca_objs h self))))),
        (''designation'', Atom (PStr (designation (neo_objs h n)))),
        (''name'', Atom (PStr (case name (neo_objs h n) of None \<Rightarrow> [] | Some s \<Rightarrow> s))),
        (''diameter_km'', Atom (PStr (float_repr rt (diameter (neo_objs h n))))),
        (''potentially_hazardous'',
           Atom (PStr (if hazardous (neo_objs h n) then ''True'' else ''False'')))]), h)"
  by (simp add: serialize_def Let_def py_dict_fields7)

lemma serialize_json:
  "neo (ca_objs h self) = Some n \<Longrightarrow>
   serialize rt h self (PStr ''json'') =
     (Inr (Dict
       [(''datetime_utc'', Atom (PStr (time_str (ca_objs h self)))),
        (''distance_au'', Atom (PFloat (distance (ca_objs h self)))),
        (''velocity_km_s'', Atom (PFloat (velocity (ca_objs h self)))),
        (''neo'', Dict
           [(''designation'', Atom (PStr (designation (neo_objs h n)))),
            (''name'', Atom (PStr (case name (neo_objs h n) of None \<Rightarrow> [] | Some s \<Rightarrow> s))),
            (''diameter_km'', Atom (PFloat (diameter (neo_objs h n)))),
            (''potentially_hazardous'', Atom (PBool (hazardous (neo_objs h n))))])]), h)"
  by (simp add: serialize_def Let_def py_dict_fields3 py_dict_fields4)

lemma serialize_other:
  "neo (ca_objs h self) = Some n \<Longrightarrow> x \<noteq> PStr ''csv'' \<Longrightarrow> x \<noteq> PStr ''json'' \<Longrightarrow>
   serialize rt h self x = (Inl ValueError, h)"
  by (simp add: serialize_def Let_def)

lemma serialize_heap: "snd (serialize rt h self x) = h"
  by (simp add: serialize_def Let_def split: option.splits)

lemma example_time_str: "time_str example_event = ''1900-12-27 01:30''"
  by (simp add: time_str_def example_event_def datetime_to_str_def zero_pad_def
      show_nat.simps digit_char_def)

text \<open>
  Claim C4. For a linked event, \<^verbatim>\<open>serialize('csv')\<close> returns the seven keys in the
  fixed order, each with a string value (the name is the empty string when the body has
  none), and \<^verbatim>\<open>serialize('json')\<close> returns the first three keys with a string and
  two floats, followed by \<^verbatim>\<open>neo\<close> with a dictionary of the other four keys holding
  two strings, a float and a boolean.
\<close>

theorem C4_serialize_shapes:
  assumes "neo (ca_objs h self) = Some n"
  shows "fst (serialize rt h self (PStr ''csv'')) =
     Inr (Dict
       [(''datetime_utc'', Atom (PStr (time_str (ca_objs h self)))),
        (''distance_au'', Atom (PStr (float_repr rt (distance (ca_objs h self))))),
        (''velocity_km_s'', Atom (PStr (float_repr rt (velocity (ca_objs h self))))),
        (''designation'', Atom (PStr (designation (neo_objs h n)))),
        (''name'', Atom (PStr (case name (neo_objs h n) of None \<Rightarrow> [] | Some s \<Rightarrow> s))),
        (''diameter_km'', Atom (PStr (float_repr rt (diameter (neo_objs h n))))),
        (''potentially_hazardous'',
           Atom (PStr (if hazardous (neo_objs h n) then ''True'' else ''False'')))]) \<and>
   fst (serialize rt h self (PStr ''json'')) =
     Inr (Dict
       [(''datetime_utc'', Atom (PStr (time_str (ca_objs h self)))),
        (''distance_au'', Atom (PFloat (distance (ca_objs h self)))),
        (''velocity_km_s'', Atom (PFloat (velocity (ca_objs h self)))),
        (''neo'', Dict
           [(''designation'', Atom (PStr (designation (neo_objs h n)))),
            (''name'', Atom (PStr (case name (neo_objs h n) of None \<Rightarrow> [] | Some s \<Rightarrow> s))),
            (''diameter_km'', Atom (PFloat (diameter (neo_objs h n)))),
            (''potentially_hazardous'', Atom (PBool (hazardous (neo_objs h n))))])])"
  by (simp add: serialize_csv [OF assms] serialize_json [OF assms])

theorem C4_serialize_shapes_witness:
  "neo (ca_objs linked_heap 0) = Some 0 \<and>
   fst (serialize example_runtime linked_heap 0 (PStr ''csv'')) =
     Inr (Dict
       [(''datetime_utc'', Atom (PStr ''1900-12-27 01:30'')),
        (''distance_au'', Atom (PStr ''0.5'')),
        (''velocity_km_s'', Atom (PStr ''0.5'')),
        (''designation'', Atom (PStr ''433'')),
        (''name'', Atom (PStr ''Eros'')),
        (''diameter_km'', Atom (PStr ''16.84'')),
        (''potentially_hazardous'', Atom (PStr ''False''))]) \<and>
   fst (serialize example_runtime linked_heap 0 (PStr ''json'')) =
     Inr (Dict
       [(''datetime_utc'', Atom (PStr ''1900-12-27 01:30'')),
        (''distance_au'', Atom (PFloat (Finite (1 / 2)))),
        (''velocity_km_s'', Atom (PFloat (Finite (1 / 2)))),
        (''neo'', Dict
           [(''designation'', Atom (PStr ''433'')),
            (''name'', Atom (PStr ''Eros'')),
            (''diameter_km'', Atom (PFloat (Finite (421 / 25)))),
            (''potentially_hazardous'', Atom (PBool False))])])"
proof -
  have linked: "neo (ca_objs linked_heap 0) = Some 0"
    by (simp add: linked_heap_def)
  have t: "time_str (ca_objs linked_heap 0) = ''1900-12-27 01:30''"
    using example_time_str by (simp add: linked_heap_def time_str_def)
  from C4_serialize_shapes [OF linked, of example_runtime] linked t show ?thesis
    by (simp add: linked_heap_def example_event_def example_eros_def example_runtime_def)
qed

text \<open>
  Claim C5. For a linked event and any extension, \<^verbatim>\<open>serialize\<close> raises if and only
  if the extension is neither \<^verbatim>\<open>'csv'\<close> nor \<^verbatim>\<open>'json'\<close>, the error is then
  \<^verbatim>\<open>ValueError\<close>, and for the two recognised extensions it returns a value.
\<close>

theorem C5_serialize_error:
  assumes "neo (ca_objs h self) = Some n"
  shows "((\<exists>e. fst (serialize rt h self x) = Inl e) \<longleftrightarrow> x \<noteq> PStr ''csv'' \<and> x \<noteq> PStr ''json'') \<and>
         (fst (serialize rt h self x) = Inl ValueError \<longleftrightarrow> x \<noteq> PStr ''csv'' \<and> x \<noteq> PStr ''json'') \<and>
         ((\<exists>out. fst (serialize rt h self x) = Inr out) \<longleftrightarrow> x = PStr ''csv'' \<or> x = PStr ''json'')"
proof (cases "x = PStr ''csv''")
  case True
  then show ?thesis by (simp add: serialize_csv [OF assms])
next
  case False
  show ?thesis
  proof (cases "x = PStr ''json''")
    case True
    then show ?thesis by (simp add: serialize_json [OF assms])
  next
    case other: False
    with False show ?thesis by (simp add: serialize_other [OF assms])
  qed
qed

theorem C5_serialize_error_witness:
  "neo (ca_objs linked_heap 0) = Some 0 \<and>
   fst (serialize example_runtime linked_heap 0 (PStr ''xml'')) = Inl ValueError \<and>
   fst (serialize example_runtime linked_heap 0 PNone) = Inl ValueError \<and>
   (\<exists>out. fst (serialize example_runtime linked_heap 0 (PStr ''csv'')) = Inr out)"
proof -
  have linked: "neo (ca_objs linked_heap 0) = Some 0"
    by (simp add: linked_heap_def)
  from C5_serialize_error [OF linked, of example_runtime "PStr ''xml''"]
       C5_serialize_error [OF linked, of example_runtime PNone]
       C5_serialize_error [OF linked, of example_runtime "PStr ''csv''"] linked
  show ?thesis by simp
qed

text \<open>
  Claim C9. For a linked event and a recognised extension, \<^verbatim>\<open>serialize\<close> leaves the
  store as it found it, a second call returns the same value as the first, and the event
  and its body are unchanged after both calls.
\<close>

theorem C9_serialize_idempotent:
  assumes "neo (ca_objs h self) = Some n" and "x = PStr ''csv'' \<or> x = PStr ''json''"
  shows "snd (serialize rt h self x) = h \<and>
         fst (serialize rt (snd (serialize rt h self x)) self x) = fst (serialize rt h self x) \<and>
         (\<exists>out. fst (serialize rt h self x) = Inr out) \<and>
         ca_objs (snd (serialize rt (snd (serialize rt h self x)) self x)) self = ca_objs h self \<and>
         neo_objs (snd (serialize rt (snd (serialize rt h self x)) self x)) n = neo_objs h n"
  using assms(2) by (auto simp: serialize_heap serialize_csv [OF assms(1)] serialize_json [OF assms(1)])

theorem C9_serialize_idempotent_witness:
  "neo (ca_objs linked_heap 0) = Some 0 \<and>
   snd (serialize example_runtime linked_heap 0 (PStr ''json'')) = linked_heap \<and>
   fst (serialize example_runtime (snd (serialize example_runtime linked_heap 0 (PStr ''json'')))
          0 (PStr ''json'')) =
   fst (serialize example_runtime linked_heap 0 (PStr ''json''))"
proof -
  have linked: "neo (ca_objs linked_heap 0) = Some 0"
    by (simp add: linked_heap_def)
  from C9_serialize_idempotent [OF linked, of "PStr ''json''" example_runtime] linked
  show ?thesis by simp
qed

subsection \<open>The designation\<close>

lemma assign_neo_designation:
  "designation (neo_objs (snd (assign_neo h e d)) n) = designation (neo_objs h n)"
  by (simp add: assign_neo_def Let_def py_getitem_def split: option.splits)

lemma str_repr_heap:
  "snd (NearEarthObject_str rt h n) = h" "snd (NearEarthObject_repr rt h n) = h"
  "snd (CloseApproach_str rt h e) = h" "snd (CloseApproach_repr rt h e) = h"
  by (simp_all add: NearEarthObject_str_def NearEarthObject_repr_def CloseApproach_str_def
      CloseApproach_repr_def Let_def)

lemma perform_designation:
  "designation (neo_objs (perform rt h c) n) = designation (neo_objs h n)"
  by (cases c) (simp_all add: assign_neo_designation serialize_heap str_repr_heap)

lemma perform_all_designation:
  "designation (neo_objs (perform_all rt h cs) n) = designation (neo_objs h n)"
  unfolding perform_all_def
  by (induction cs arbitrary: h) (simp_all add: perform_designation)

text \<open>
  Claim C3 as stated asks for a designation that is never empty. The constructor does
  not check it: from the empty string it builds an object whose designation is empty.
\<close>

theorem C3_designation_counterexample:
  "NearEarthObject_init example_runtime (PStr []) None None None [] =
     Inr \<lparr> designation = [], name = None, diameter = NaN, hazardous = False,
           approaches = [], extra_information = [] \<rparr>"
  by (simp add: NearEarthObject_init_def example_runtime_def)

text \<open>
  Claim C3, amended. The designation of a constructed \<^verbatim>\<open>NearEarthObject\<close> is
  \<^verbatim>\<open>str(pdes)\<close>, which is empty exactly when that coercion is empty, and no sequence
  of linking, serialization and string rendering calls changes the designation of any
  object in the store.
\<close>

theorem C3_designation_fixed:
  assumes "NearEarthObject_init rt pdes nm d pha extra = Inr obj"
      and "neo_objs h n = obj"
  shows "designation obj = py_str rt pdes \<and>
         (designation obj = [] \<longleftrightarrow> py_str rt pdes = []) \<and>
         designation (neo_objs (perform_all rt h cs) n) = py_str rt pdes \<and>
         (\<forall>m. designation (neo_objs (perform_all rt h cs) m) = designation (neo_objs h m))"
  using init_Inr [OF assms(1)] assms(2) by (simp add: perform_all_designation)

theorem C3_designation_fixed_witness:
  "NearEarthObject_init example_runtime (PStr ''2015 AB'') (Some (PStr []))
     (Some (PStr [])) (Some (PStr ''Y'')) [] = Inr example_neo \<and>
   neo_objs example_heap_2015 1 = example_neo \<and>
   designation (neo_objs (perform_all example_runtime example_heap_2015
      [AssignNeo 0 [(''2015 AB'', 1)], Serialize 0 (PStr ''csv''), NeoStr 1, CaRepr 0]) 1) =
   ''2015 AB''"
proof -
  have run: "NearEarthObject_init example_runtime (PStr ''2015 AB'') (Some (PStr []))
     (Some (PStr [])) (Some (PStr ''Y'')) [] = Inr example_neo"
    by (simp add: NearEarthObject_init_def example_runtime_def example_neo_def)
  have at: "neo_objs example_heap_2015 1 = example_neo"
    by (simp add: example_heap_2015_def)
  from C3_designation_fixed [OF run at] run at show ?thesis by simp
qed

subsection \<open>The linking pass\<close>

lemma map_of_foldl_update:
  "map_of (foldl (\<lambda>d kv. AList.update (fst kv) (snd kv) d) acc kvs) =
   map_of acc ++ map_of (rev kvs)"
  by (induction kvs arbitrary: acc) (simp_all add: update_conv')

lemma map_of_py_dict: "map_of (py_dict kvs) = map_of (rev kvs)"
  by (simp add: py_dict_def map_of_foldl_update)

lemma designation_index_Some:
  assumes "distinct (map (\<lambda>b. designation (neo_objs h b)) bodies)"
  shows "map_of (designation_index h bodies) k = Some b \<longleftrightarrow>
         b \<in> set bodies \<and> designation (neo_objs h b) = k"
proof -
  let ?kvs = "map (\<lambda>b. (designation (neo_objs h b), b)) bodies"
  have "map fst (rev ?kvs) = rev (map (\<lambda>b. designation (neo_objs h b)) bodies)"
    by (simp add: rev_map comp_def)
  with assms have "distinct (map fst (rev ?kvs))"
    by simp
  then have "map_of (rev ?kvs) k = Some b \<longleftrightarrow> (k, b) \<in> set (rev ?kvs)"
    by (rule map_of_eq_Some_iff)
  then show ?thesis
    by (auto simp: designation_index_def map_of_py_dict)
qed

lemma assign_neo_closed:
  "assign_neo h e d =
     (Inr e,
      \<lparr> neo_objs =
          (case map_of d (ca_designation (ca_objs h e)) of
             None \<Rightarrow> neo_objs h
           | Some m \<Rightarrow> (neo_objs h)
               (m := (neo_objs h m)\<lparr> approaches := approaches (neo_objs h m) @ [e] \<rparr>)),
        ca_objs = (ca_objs h)
          (e := (ca_objs h e)\<lparr> neo := map_of d (ca_designation (ca_objs h e)) \<rparr>) \<rparr>)"
  by (cases h) (simp add: assign_neo_def py_in_def py_getitem_def Let_def split: option.splits)

lemma link_events_closed:
  "link_events h d es =
     Inr \<lparr> neo_objs = (\<lambda>b. (neo_objs h b)\<lparr> approaches := approaches (neo_objs h b) @
                filter (\<lambda>e. map_of d (ca_designation (ca_objs h e)) = Some b) es \<rparr>),
           ca_objs = (\<lambda>e. if e \<in> set es
                then (ca_objs h e)\<lparr> neo := map_of d (ca_designation (ca_objs h e)) \<rparr>
                else ca_objs h e) \<rparr>"
proof (induction es arbitrary: h)
  case Nil
  show ?case by (cases h) simp
next
  case (Cons e es)
  let ?k = "ca_designation (ca_objs h e)"
  let ?h1 = "\<lparr> neo_objs =
          (case map_of d ?k of
             None \<Rightarrow> neo_objs h
           | Some m \<Rightarrow> (neo_objs h)
               (m := (neo_objs h m)\<lparr> approaches := approaches (neo_objs h m) @ [e] \<rparr>)),
        ca_objs = (ca_objs h)(e := (ca_objs h e)\<lparr> neo := map_of d ?k \<rparr>) \<rparr>"
  have key: "ca_designation (ca_objs ?h1 x) = ca_designation (ca_objs h x)" for x
    by simp
  have step: "link_events h d (e # es) = link_events ?h1 d es"
    by (simp add: assign_neo_closed)
  have "link_events ?h1 d es =
     Inr \<lparr> neo_objs = (\<lambda>b. (neo_objs ?h1 b)\<lparr> approaches := approaches (neo_objs ?h1 b) @
                filter (\<lambda>x. map_of d (ca_designation (ca_objs h x)) = Some b) es \<rparr>),
           ca_objs = (\<lambda>x. if x \<in> set es
                then (ca_objs ?h1 x)\<lparr> neo := map_of d (ca_designation (ca_objs h x)) \<rparr>
                else ca_objs ?h1 x) \<rparr>"
    using Cons.IH [of ?h1] unfolding key .
  also have "\<dots> =
     Inr \<lparr> neo_objs = (\<lambda>b. (neo_objs h b)\<lparr> approaches := approaches (neo_objs h b) @
                filter (\<lambda>x. map_of d (ca_designation (ca_objs h x)) = Some b) (e # es) \<rparr>),
           ca_objs = (\<lambda>x. if x \<in> set (e # es)
                then (ca_objs h x)\<lparr> neo := map_of d (ca_designation (ca_objs h x)) \<rparr>
                else ca_objs h x) \<rparr>"
    by (auto simp: fun_eq_iff split: option.splits)
  finally show ?case
    using step by simp
qed

text \<open>
  Claim C2. Bodies with distinct designations and no approaches yet, distinct events,
  one linking pass. The pass does not raise. Afterwards an event whose designation is
  that of a body has this body as its \<^verbatim>\<open>neo\<close> and occurs exactly once in the body's
  approaches; the approaches of a body are the events of its designation in the order
  supplied; an event whose designation no body has is left with \<^verbatim>\<open>neo = None\<close> and
  is in no body's approaches.
\<close>

theorem C2_linking_pass:
  assumes "distinct (map (\<lambda>b. designation (neo_objs h b)) bodies)"
      and "distinct events"
      and "\<forall>b \<in> set bodies. approaches (neo_objs h b) = []"
  shows "\<exists>h'. linking_pass h bodies events = Inr h' \<and>
           (\<forall>e \<in> set events. \<forall>b \<in> set bodies.
              ca_designation (ca_objs h e) = designation (neo_objs h b) \<longrightarrow>
              neo (ca_objs h' e) = Some b \<and> count_list (approaches (neo_objs h' b)) e = 1) \<and>
           (\<forall>b \<in> set bodies. approaches (neo_objs h' b) =
              filter (\<lambda>e. ca_designation (ca_objs h e) = designation (neo_objs h b)) events) \<and>
           (\<forall>e \<in> set events.
              (\<forall>b \<in> set bodies. ca_designation (ca_objs h e) \<noteq> designation (neo_objs h b)) \<longrightarrow>
              neo (ca_objs h' e) = None \<and>
              (\<forall>b \<in> set bodies. e \<notin> set (approaches (neo_objs h' b))))"
proof -
  let ?d = "designation_index h bodies"
  let ?h' = "\<lparr> neo_objs = (\<lambda>b. (neo_objs h b)\<lparr> approaches := approaches (neo_objs h b) @
                filter (\<lambda>e. map_of ?d (ca_designation (ca_objs h e)) = Some b) events \<rparr>),
           ca_objs = (\<lambda>e. if e \<in> set events
                then (ca_objs h e)\<lparr> neo := map_of ?d (ca_designation (ca_objs h e)) \<rparr>
                else ca_objs h e) \<rparr>"
  note idx = designation_index_Some [OF assms(1)]
  have run: "linking_pass h bodies events = Inr ?h'"
    by (simp add: linking_pass_def link_events_closed)
  have apps: "approaches (neo_objs ?h' b) =
      filter (\<lambda>e. ca_designation (ca_objs h e) = designation (neo_objs h b)) events"
    if "b \<in> set bodies" for b
  proof -
    have "(\<lambda>e. map_of ?d (ca_designation (ca_objs h e)) = Some b) =
          (\<lambda>e. ca_designation (ca_objs h e) = designation (neo_objs h b))"
      using that by (auto simp: idx fun_eq_iff)
    with that assms(3) show ?thesis by simp
  qed
  have hit: "neo (ca_objs ?h' e) = Some b \<and> count_list (approaches (neo_objs ?h' b)) e = 1"
    if "e \<in> set events" "b \<in> set bodies"
       "ca_designation (ca_objs h e) = designation (neo_objs h b)" for e b
  proof -
    have "map_of ?d (ca_designation (ca_objs h e)) = Some b"
      using that by (simp add: idx)
    then have n: "neo (ca_objs ?h' e) = Some b"
      using that(1) by simp
    have "count_list (filter P events) e = 1" if "P e" for P
      using assms(2) \<open>e \<in> set events\<close> that
      by (induction events) auto
    then have "count_list (approaches (neo_objs ?h' b)) e = 1"
      unfolding apps [OF that(2)] using that(3) by simp
    with n show ?thesis by simp
  qed
  have miss: "neo (ca_objs ?h' e) = None \<and>
       (\<forall>b \<in> set bodies. e \<notin> set (approaches (neo_objs ?h' b)))"
    if e: "e \<in> set events"
       and none: "\<forall>b \<in> set bodies. ca_designation (ca_objs h e) \<noteq> designation (neo_objs h b)"
    for e
  proof -
    have "map_of ?d (ca_designation (ca_objs h e)) = None"
    proof (cases "map_of ?d (ca_designation (ca_objs h e))")
      case None
      then show ?thesis .
    next
      case (Some b)
      with none idx have False by force
      then show ?thesis ..
    qed
    then have n: "neo (ca_objs ?h' e) = None"
      using e by simp
    have "e \<notin> set (approaches (neo_objs ?h' b))" if "b \<in> set bodies" for b
      unfolding apps [OF that] using none that by simp
    with n show ?thesis by simp
  qed
  from run apps hit miss show ?thesis
    by (intro exI [of _ ?h'] conjI ballI impI) blast+
qed

theorem C2_linking_pass_witness:
  "distinct (map (\<lambda>b. designation (neo_objs example_heap b)) [0, 1]) \<and>
   distinct [0, 1, 2 :: nat] \<and>
   approaches (neo_objs example_heap 0) = [] \<and> approaches (neo_objs example_heap 1) = [] \<and>
   (\<exists>h'. linking_pass example_heap [0, 1] [0, 1, 2] = Inr h' \<and>
         neo (ca_objs h' 0) = Some 0 \<and> neo (ca_objs h' 1) = None \<and>
         neo (ca_objs h' 2) = Some 0 \<and>
         approaches (neo_objs h' 0) = [0, 2] \<and> approaches (neo_objs h' 1) = [])"
proof -
  have d: "distinct (map (\<lambda>b. designation (neo_objs example_heap b)) [0, 1])"
    by (simp add: example_heap_def example_eros_def example_neo_def)
  have e: "distinct [0, 1, 2 :: nat]"
    by simp
  have a: "\<forall>b \<in> set [0, 1]. approaches (neo_objs example_heap b) = []"
    by (simp add: example_heap_def example_eros_def example_neo_def)
  from C2_linking_pass [OF d e a] obtain h' where
    run: "linking_pass example_heap [0, 1] [0, 1, 2] = Inr h'" and
    hit: "\<forall>e \<in> set [0, 1, 2]. \<forall>b \<in> set [0, 1].
            ca_designation (ca_objs example_heap e) = designation (neo_objs example_heap b) \<longrightarrow>
            neo (ca_objs h' e) = Some b \<and> count_list (approaches (neo_objs h' b)) e = 1" and
    apps: "\<forall>b \<in> set [0, 1]. approaches (neo_objs h' b) =
            filter (\<lambda>e. ca_designation (ca_objs example_heap e) =
                        designation (neo_objs example_heap b)) [0, 1, 2]" and
    miss: "\<forall>e \<in> set [0, 1, 2].
            (\<forall>b \<in> set [0, 1]. ca_designation (ca_objs example_heap e) \<noteq>
                                   designation (neo_objs example_heap b)) \<longrightarrow>
            neo (ca_objs h' e) = None \<and>
            (\<forall>b \<in> set [0, 1]. e \<notin> set (approaches (neo_objs h' b)))"
    by blast
  have "neo (ca_objs h' 0) = Some 0" "neo (ca_objs h' 2) = Some 0"
    using hit by (simp_all add: example_heap_def example_eros_def example_event_def)
  moreover have "neo (ca_objs h' 1) = None"
    using miss by (simp add: example_heap_def example_eros_def example_event_def example_neo_def)
  moreover have "approaches (neo_objs h' 0) = [0, 2]" "approaches (neo_objs h' 1) = []"
    using apps by (simp_all add: example_heap_def example_eros_def example_event_def example_neo_def)
  ultimately show ?thesis
    using d e a run by simp
qed

subsection \<open>The approach time\<close>

lemma digit_val_bound: "is_digit c \<Longrightarrow> digit_val c < 10"
  by (auto simp: is_digit_def digit_val_def)

lemma digit_char_val: "is_digit c \<Longrightarrow> digit_char (digit_val c) = c"
  by (auto simp: is_digit_def digit_val_def digit_char_def)

lemma read_digits_snoc: "read_digits (ds @ [c]) = 10 * read_digits ds + digit_val c"
  by (simp add: read_digits_def)

lemma show_nat_step:
  "d < 10 \<Longrightarrow> show_nat (10 * v + d) =
     (if v = 0 then [digit_char d] else show_nat v @ [digit_char d])"
  by (subst show_nat.simps) simp

lemma show_nat_zero: "show_nat 0 = ''0''"
  by (subst show_nat.simps) (simp add: digit_char_def)

lemma zero_pad_read_digits:
  assumes "ds \<noteq> []" and "list_all is_digit ds"
  shows "zero_pad (length ds) (read_digits ds) = ds"
  using assms
proof (induction ds rule: rev_nonempty_induct)
  case (single c)
  then have "digit_val c < 10" "digit_char (digit_val c) = c"
    by (simp_all add: digit_val_bound digit_char_val)
  then show ?case
    using show_nat_step [of "digit_val c" 0]
    by (simp add: zero_pad_def read_digits_def)
next
  case (snoc c ds)
  then have c: "digit_val c < 10" "digit_char (digit_val c) = c"
    and ih: "zero_pad (length ds) (read_digits ds) = ds"
    by (simp_all add: digit_val_bound digit_char_val)
  show ?case
  proof (cases "read_digits ds = 0")
    case True
    with ih have "ds = replicate (length ds - 1) (CHR ''0'') @ ''0''"
      by (simp add: zero_pad_def show_nat_zero)
    also have "\<dots> = replicate (Suc (length ds - 1)) (CHR ''0'')"
      by (simp add: replicate_append_same)
    also have "Suc (length ds - 1) = length ds"
      using snoc.hyps by (cases ds) simp_all
    finally have "ds = replicate (length ds) (CHR ''0'')" .
    with True c show ?thesis
      using show_nat_step [of "digit_val c" 0]
      by (simp add: zero_pad_def read_digits_snoc)
  next
    case False
    with c ih show ?thesis
      by (simp add: zero_pad_def read_digits_snoc show_nat_step)
  qed
qed

lemma split_cd:
  assumes "length s = 16"
  shows "s = take 4 s @ s ! 4 # take 2 (drop 5 s) @ s ! 7 # take 2 (drop 8 s) @
             s ! 10 # take 2 (drop 11 s) @ s ! 13 # take 2 (drop 14 s)"
proof -
  from assms obtain a0 a1 a2 a3 a4 a5 a6 a7 a8 a9 a10 a11 a12 a13 a14 a15
    where "s = [a0, a1, a2, a3, a4, a5, a6, a7, a8, a9, a10, a11, a12, a13, a14, a15]"
    by (auto simp: numeral_eq_Suc length_Suc_conv)
  then show ?thesis by simp
qed

lemma cd_round_trip:
  assumes "valid_cd s"
  shows "\<exists>dt. cd_to_datetime (PStr s) = Inr dt \<and> datetime_to_str dt = s \<and> second dt = 0"
proof -
  let ?y = "take 4 s" and ?m = "take 2 (drop 5 s)" and ?d = "take 2 (drop 8 s)"
  let ?hh = "take 2 (drop 11 s)" and ?mm = "take 2 (drop 14 s)"
  let ?dt = "\<lparr> year = read_digits ?y, month = read_digits ?m, day = read_digits ?d,
              hour = read_digits ?hh, minute = read_digits ?mm, second = 0 \<rparr>"
  from assms [unfolded valid_cd_def] have len: "length s = 16"
    and seps: "s ! 4 = CHR ''-''" "s ! 7 = CHR ''-''" "s ! 10 = CHR '' ''" "s ! 13 = CHR '':''"
    and digs: "list_all is_digit ?y" "list_all is_digit ?m" "list_all is_digit ?d"
      "list_all is_digit ?hh" "list_all is_digit ?mm"
    and ok: "valid_fields (read_digits ?y) (read_digits ?m) (read_digits ?d)
      (read_digits ?hh) (read_digits ?mm)"
    by blast+
  from len have lens: "length ?y = 4" "length ?m = 2" "length ?d = 2" "length ?hh = 2"
    "length ?mm = 2"
    by simp_all
  then have ne: "?y \<noteq> []" "?m \<noteq> []" "?d \<noteq> []" "?hh \<noteq> []" "?mm \<noteq> []"
    by auto
  have parse: "cd_to_datetime (PStr s) = Inr ?dt"
    using len seps digs ne ok by (simp add: cd_to_datetime_def read_nat_def)
  have pads: "zero_pad 4 (read_digits ?y) = ?y" "zero_pad 2 (read_digits ?m) = ?m"
    "zero_pad 2 (read_digits ?d) = ?d" "zero_pad 2 (read_digits ?hh) = ?hh"
    "zero_pad 2 (read_digits ?mm) = ?mm"
    using zero_pad_read_digits [OF ne(1) digs(1)] zero_pad_read_digits [OF ne(2) digs(2)]
      zero_pad_read_digits [OF ne(3) digs(3)] zero_pad_read_digits [OF ne(4) digs(4)]
      zero_pad_read_digits [OF ne(5) digs(5)]
    unfolding lens by simp_all
  have "datetime_to_str ?dt = ?y @ CHR ''-'' # ?m @ CHR ''-'' # ?d @ CHR '' '' # ?hh @
      CHR '':'' # ?mm"
    by (simp add: datetime_to_str_def pads)
  also have "\<dots> = s"
    using split_cd [OF len] unfolding seps by simp
  finally show ?thesis
    using parse by simp
qed

lemma cd_to_datetime_valid:
  assumes "cd_to_datetime (PStr s) = Inr dt"
  shows "valid_cd s"
  using assms
  by (simp add: cd_to_datetime_def read_nat_def valid_cd_def
      split: if_splits option.splits prod.splits)

text \<open>
  Claim C1. For every valid minute-precision date-time string \<open>s\<close> in the format
  \<^verbatim>\<open>YYYY-MM-DD HH:MM\<close>, and distance and velocity inputs that \<^verbatim>\<open>float\<close> accepts,
  constructing a \<^verbatim>\<open>CloseApproach\<close> from \<open>s\<close> succeeds and its \<^verbatim>\<open>time_str\<close> is \<open>s\<close>
  again, character for character; and a string from which the constructor builds an
  object is always such a valid string and is reproduced by \<^verbatim>\<open>time_str\<close>. The two
  date helpers are the ones modelled from the spec.
\<close>

theorem C1_time_str_round_trip:
  assumes "valid_cd s" and "py_float rt dist_arg = Inr x" and "py_float rt v_rel = Inr y"
  shows "(\<exists>ca. CloseApproach_init rt des (PStr s) dist_arg v_rel extra = Inr ca \<and>
               time_str ca = s \<and> length (time_str ca) = 16) \<and>
         (\<forall>s' ca'. CloseApproach_init rt des (PStr s') dist_arg v_rel extra = Inr ca' \<longrightarrow>
               valid_cd s' \<and> time_str ca' = s')"
proof (intro conjI allI impI)
  from cd_round_trip [OF assms(1)] obtain dt where
    "cd_to_datetime (PStr s) = Inr dt" "datetime_to_str dt = s"
    by blast
  moreover from assms(1) have "length s = 16"
    by (simp add: valid_cd_def)
  ultimately show "\<exists>ca. CloseApproach_init rt des (PStr s) dist_arg v_rel extra = Inr ca \<and>
      time_str ca = s \<and> length (time_str ca) = 16"
    using assms(2,3) by (simp add: CloseApproach_init_def time_str_def)
next
  fix s' ca'
  assume built: "CloseApproach_init rt des (PStr s') dist_arg v_rel extra = Inr ca'"
  then obtain dt where parse: "cd_to_datetime (PStr s') = Inr dt" and t: "time ca' = dt"
    using assms(2,3) by (auto simp: CloseApproach_init_def split: sum.splits)
  from cd_to_datetime_valid [OF parse] show "valid_cd s'" .
  from cd_round_trip [OF this] parse t show "time_str ca' = s'"
    by (auto simp: time_str_def)
qed

theorem C1_time_str_round_trip_witness:
  "valid_cd ''1900-12-27 01:30'' \<and>
   py_float example_runtime (PStr ''0.5'') = Inr (Finite (1 / 2)) \<and>
   (\<exists>ca. CloseApproach_init example_runtime (PStr ''433'') (PStr ''1900-12-27 01:30'')
           (PStr ''0.5'') (PStr ''0.5'') [] = Inr ca \<and>
         time_str ca = ''1900-12-27 01:30'')"
proof -
  have v: "valid_cd ''1900-12-27 01:30''"
    by (simp add: valid_cd_def is_digit_def read_digits_def digit_val_def valid_fields_def
        days_in_month_def)
  have f: "py_float example_runtime (PStr ''0.5'') = Inr (Finite (1 / 2))"
    by (simp add: example_runtime_def)
  from C1_time_str_round_trip [OF v f f, of "PStr ''433''" "[]"] v f show ?thesis
    by auto
qed

end
